theory Spec2Isabelle
  imports Complex_Main "HOL-Library.Multiset"
begin

section \<open>Values, errors and observable effects\<close>

text \<open>
  The program is a Python command-line tool over an SQLite database and a Redis cache.
  Python exceptions that the modelled functions can raise are values of \<open>error\<close>:
  \<open>TypeError\<close> (instantiating the abstract class \<open>Media\<close>, or \<open>int()\<close> of a value
  it cannot take), \<open>ValueError\<close> (\<open>int()\<close> of a string that is not a number),
  \<open>OverflowError\<close> (binding a Python \<open>int\<close> that does not fit SQLite's 64-bit INTEGER
  to a statement) and \<open>ConnectionError\<close> (a Redis round trip that fails).
\<close>

datatype error = TypeError | ValueError | OverflowError | ConnectionError

text \<open>
  The integers the \<open>sqlite3\<close> module binds to a parameter: a Python \<open>int\<close> outside
  the signed 64-bit range makes \<open>execute\<close> raise \<open>OverflowError\<close> before the statement
  runs.
\<close>

definition sqlite_int :: "int \<Rightarrow> bool" where
  "sqlite_int i = (- (2 ^ 63) \<le> i \<and> i < 2 ^ 63)"

text \<open>
  The \<open>avg_rating\<close> column of the catalog query is
  \<open>IFNULL(AVG(r.rating), 'No Ratings')\<close>: an SQL REAL or the SQL TEXT \<open>'No Ratings'\<close>.
  A REAL is an IEEE binary64 number, written here by its exact value (every finite
  double is a rational).
\<close>

datatype sqlval = SqlReal rat | SqlText string

type_synonym table_row = "int \<times> string \<times> sqlval"

text \<open>
  A Python \<open>str\<close> that the program prints or caches: a known string, or the
  result of \<open>tabulate(table_data, headers=headers, tablefmt="grid")\<close>. The rendering
  library is not part of the repository, so its result is kept symbolic.
\<close>

datatype pystr = Str string | Tabulate "table_row list" "string list"

text \<open>Python truthiness of a string; a rendered grid with headers is never empty.\<close>

fun truthy :: "pystr \<Rightarrow> bool" where
  "truthy (Str s) = (s \<noteq> [])"
| "truthy (Tabulate table_data headers) = True"

text \<open>
  What a call does besides changing the store and the cache: lines printed, warnings
  logged, Redis round trips, database connections opened, worker threads started, and
  the exception that ends a worker thread (Python reports it on stderr and the other
  threads go on).
\<close>

datatype event =
    Print pystr
  | Warning string
  | CacheGet string
  | CacheSet string pystr nat
  | Connect
  | ThreadStart "int \<times> int \<times> string"
  | ThreadException error

text \<open>Python's \<open>str\<close> of an \<open>int\<close>, as the f-strings of the source use it.\<close>

fun digits :: "nat \<Rightarrow> string" where
  "digits n = (if n < 10 then [''0123456789'' ! n]
               else digits (n div 10) @ [''0123456789'' ! (n mod 10)])"

declare digits.simps [simp del]

definition str_int :: "int \<Rightarrow> string" where
  "str_int i = (if i < 0 then CHR ''-'' # digits (nat (- i)) else digits (nat i))"

section \<open>Media taxonomy\<close>

text \<open>
  The dataclasses \<open>Movie\<close>, \<open>WebShow\<close>, \<open>Cartoon\<close> and \<open>Song\<close>, each with the
  fields \<open>title\<close> and \<open>type\<close>. Their base class \<open>Media\<close> is abstract
  (\<open>ABC\<close> with the abstract method \<open>get_details\<close>), so it has no instances.
\<close>

datatype media =
    Movie string string
  | WebShow string string
  | Cartoon string string
  | Song string string

fun get_details :: "media \<Rightarrow> string" where
  "get_details (Movie title type) = ''Movie: '' @ title"
| "get_details (WebShow title type) = ''WebShow: '' @ title"
| "get_details (Cartoon title type) = ''Cartoon: '' @ title"
| "get_details (Song title type) = ''Song: '' @ title"

text \<open>
  \<open>Media(title, media_type)\<close>: Python refuses to instantiate a class that still has an
  abstract method and raises \<open>TypeError\<close>.
\<close>

definition Media :: "string \<Rightarrow> string \<Rightarrow> error + media" where
  "Media title type = Inl TypeError"

text \<open>The dictionary \<open>media_classes\<close> of \<open>create_media\<close>; it has no entry for Cartoon.\<close>

definition media_classes :: "string \<rightharpoonup> (string \<Rightarrow> string \<Rightarrow> media)" where
  "media_classes = [''Movie'' \<mapsto> Movie, ''WebShow'' \<mapsto> WebShow, ''Song'' \<mapsto> Song]"

definition unknown_type_warning :: "string \<Rightarrow> string \<Rightarrow> string" where
  "unknown_type_warning title media_type =
     ''Unknown media type '' @ [CHR 0x27] @ media_type @ [CHR 0x27] @ '' for title '' @
     [CHR 0x27] @ title @ [CHR 0x27] @ ''. Defaulting to generic media.''"

text \<open>\<open>MediaFactory.create_media\<close>: the warnings it logs and what it returns or raises.\<close>

definition create_media :: "string \<Rightarrow> string \<Rightarrow> event list \<times> (error + media)" where
  "create_media title media_type =
     (case media_classes media_type of
        Some cls \<Rightarrow> ([], Inr (cls title media_type))
      | None \<Rightarrow> ([Warning (unknown_type_warning title media_type)], Media title media_type))"

section \<open>The store\<close>

text \<open>
  The SQLite database \<open>media_reviews.db\<close>. Importing \<open>media_review.py\<close> creates
  \<open>users\<close>, \<open>media\<close>, \<open>reviews\<close> and \<open>alerts\<close> (if they do not exist yet);
  \<open>init.py\<close> creates \<open>favorites\<close>. The rows carry the columns the program writes
  and reads; the AUTOINCREMENT keys of \<open>reviews\<close>, \<open>favorites\<close> and \<open>alerts\<close> are
  never read by any statement of the program and are left out. A table is the list of its
  rows in insertion order.

  Two facts about SQLite fix how the statements below behave. Both scripts create their
  tables with \<open>CREATE TABLE IF NOT EXISTS\<close>, so a table keeps the declaration that
  came first; the model takes \<open>users\<close>, \<open>media\<close>, \<open>reviews\<close> and \<open>alerts\<close>
  as \<open>media_review.py\<close> declares them (\<open>add_user\<close> needs the \<open>password\<close> column
  that only this declaration has), so \<open>reviews.rating\<close> is \<open>INTEGER NOT NULL\<close> with
  no CHECK, where \<open>init.py\<close> writes \<open>CHECK (rating BETWEEN 1 AND 5)\<close>. And SQLite
  enforces foreign keys (so also \<open>ON DELETE CASCADE\<close>) only on a connection that has
  executed \<open>PRAGMA foreign_keys = ON\<close>, which no connection of the program does; the
  \<open>favorites\<close> table of \<open>init.py\<close> declares no \<open>ON DELETE\<close> action at all.
\<close>

record user =
  u_id :: int
  u_username :: string
  u_password :: string

record media_item =
  m_id :: int
  m_title :: string
  m_type :: string

record review =
  r_user_id :: int
  r_media_id :: int
  r_rating :: int
  r_comment :: string

record favorite =
  f_user_id :: int
  f_media_id :: int

record alert =
  a_user_id :: int
  a_alert :: string

record db =
  users :: "user list"
  media :: "media_item list"
  reviews :: "review list"
  favorites :: "favorite list"
  alerts :: "alert list"

section \<open>The cache\<close>

text \<open>
  The Redis client \<open>cache\<close>: the live keys with their value and remaining time to
  live in seconds, and the fate of the coming round trips (\<open>True\<close>: the round trip
  raises \<open>redis.exceptions.ConnectionError\<close>; an empty list: none fails).
\<close>

record cache_state =
  entries :: "string \<rightharpoonup> (pystr \<times> nat)"
  faults :: "bool list"

text \<open>Everything a call can read and change, with the effects observed so far.\<close>

record world =
  store :: db
  cache :: cache_state
  trace :: "event list"

definition emit :: "event \<Rightarrow> world \<Rightarrow> world" where
  "emit e w = w\<lparr>trace := trace w @ [e]\<rparr>"

definition round_trip :: "world \<Rightarrow> bool \<times> world" where
  "round_trip w =
     (case faults (cache w) of
        [] \<Rightarrow> (False, w)
      | failed # rest \<Rightarrow> (failed, w\<lparr>cache := (cache w)\<lparr>faults := rest\<rparr>\<rparr>))"

text \<open>\<open>cache.get(key)\<close>\<close>

definition cache_get :: "string \<Rightarrow> world \<Rightarrow> world \<times> (error + pystr option)" where
  "cache_get key w =
     (case round_trip (emit (CacheGet key) w) of
        (True, w1) \<Rightarrow> (w1, Inl ConnectionError)
      | (False, w1) \<Rightarrow> (w1, Inr (map_option fst (entries (cache w1) key))))"

text \<open>\<open>cache.set(key, value, ex=ttl)\<close>\<close>

definition cache_set :: "string \<Rightarrow> pystr \<Rightarrow> nat \<Rightarrow> world \<Rightarrow> world \<times> (error + unit)" where
  "cache_set key val ttl w =
     (case round_trip (emit (CacheSet key val ttl) w) of
        (True, w1) \<Rightarrow> (w1, Inl ConnectionError)
      | (False, w1) \<Rightarrow>
          (w1\<lparr>cache := (cache w1)\<lparr>entries := (entries (cache w1))(key \<mapsto> (val, ttl))\<rparr>\<rparr>, Inr ()))"

section \<open>Favorites\<close>

text \<open>
  \<open>add_favorite\<close>: one INSERT into \<open>favorites\<close>, whose
  \<open>UNIQUE(user_id, media_id) ON CONFLICT IGNORE\<close> skips an insert that would repeat a pair.
  An id that SQLite cannot hold ends the call with \<open>OverflowError\<close> before the insert
  and before the message.
\<close>

definition insert_favorite :: "int \<Rightarrow> int \<Rightarrow> db \<Rightarrow> db" where
  "insert_favorite user_id media_id d =
     (if \<lparr>f_user_id = user_id, f_media_id = media_id\<rparr> \<in> set (favorites d) then d
      else d\<lparr>favorites := favorites d @ [\<lparr>f_user_id = user_id, f_media_id = media_id\<rparr>]\<rparr>)"

definition add_favorite :: "int \<Rightarrow> int \<Rightarrow> world \<Rightarrow> world \<times> (error + unit)" where
  "add_favorite user_id media_id w =
     (let w1 = emit Connect w
      in if \<not> (sqlite_int user_id \<and> sqlite_int media_id) then (w1, Inl OverflowError)
         else
           let w2 = w1\<lparr>store := insert_favorite user_id media_id (store w1)\<rparr>
           in (emit (Print (Str (''Media ID '' @ str_int media_id @
                                 '' added to favorites for User ID '' @ str_int user_id @ ''!''))) w2,
               Inr ()))"

section \<open>Catalog listing\<close>

text \<open>
  The argument of \<open>list_media\<close>: the string "all"; a value \<open>int()\<close> turns into a number;
  a string \<open>int()\<close> rejects with \<open>ValueError\<close>; a value \<open>int()\<close> cannot take at all,
  such as \<open>None\<close>, with \<open>TypeError\<close>.
\<close>

datatype limit = All | Number int | NotANumber | NotConvertible

definition int_of_limit :: "limit \<Rightarrow> error + int" where
  "int_of_limit l =
     (case l of
        Number n \<Rightarrow> Inr n
      | NotConvertible \<Rightarrow> Inl TypeError
      | _ \<Rightarrow> Inl ValueError)"

text \<open>
  Rounding to binary64, to nearest and ties to even: the rational is scaled by powers of
  two until it lies in \<open>[2^52, 2^53)\<close>, rounded to an integer and scaled back. This is
  the rounding of the normal range of binary64, in which every average of 64-bit integers
  lies.
\<close>

definition round_half_even :: "rat \<Rightarrow> int" where
  "round_half_even q =
     (let below = \<lfloor>q\<rfloor>; rest = q - of_int below
      in if rest < 1 / 2 then below
         else if 1 / 2 < rest then below + 1
         else if even below then below else below + 1)"

fun binade :: "nat \<Rightarrow> rat \<Rightarrow> rat \<Rightarrow> rat \<times> rat" where
  "binade fuel q ulp =
     (if fuel = 0 then (q, ulp)
      else if q < 2 ^ 52 then binade (fuel - 1) (q * 2) (ulp / 2)
      else if 2 ^ 53 \<le> q then binade (fuel - 1) (q / 2) (ulp * 2)
      else (q, ulp))"

declare binade.simps [simp del]

definition double_of_rat :: "rat \<Rightarrow> rat" where
  "double_of_rat q =
     (if q = 0 then 0
      else case binade 2200 \<bar>q\<bar> 1 of
             (scaled, ulp) \<Rightarrow> sgn q * of_int (round_half_even scaled) * ulp)"

text \<open>
  \<open>IFNULL(AVG(r.rating), 'No Ratings')\<close> over the reviews joined to one media row.
  SQLite's \<open>avg\<close> converts the integer sum of the ratings to a double and divides it by
  the count, in double arithmetic. (This is what every SQLite version computes while the
  sum stays within 64 bits; the ratings are 64-bit integers.)
\<close>

definition avg_rating :: "review list \<Rightarrow> int \<Rightarrow> sqlval" where
  "avg_rating rs media_id =
     (let ratings = map r_rating (filter (\<lambda>r. r_media_id r = media_id) rs)
      in if ratings = [] then SqlText ''No Ratings''
         else SqlReal (double_of_rat (double_of_rat (of_int (sum_list ratings)) /
                                      of_nat (length ratings))))"

text \<open>
  The SELECT of \<open>list_media\<close> without its LIMIT: one row per media row (\<open>GROUP BY m.id\<close>,
  \<open>id\<close> being the primary key), in table order.
\<close>

definition select_catalog :: "db \<Rightarrow> (int \<times> string \<times> string \<times> sqlval) list" where
  "select_catalog d =
     map (\<lambda>m. (m_id m, m_title m, m_type m, avg_rating (reviews d) (m_id m))) (media d)"

text \<open>SQL \<open>LIMIT n\<close>: a negative \<open>n\<close> means no limit.\<close>

definition sql_limit :: "int \<Rightarrow> 'a list \<Rightarrow> 'a list" where
  "sql_limit n rows = (if n < 0 then rows else take (nat n) rows)"

text \<open>
  The body of the \<open>with DatabaseConnection()\<close> block: \<open>results\<close>, or the error raised
  in it by \<open>int(limit)\<close> or by binding the limit.
\<close>

definition fetch_results :: "limit \<Rightarrow> db \<Rightarrow> error + (int \<times> string \<times> string \<times> sqlval) list" where
  "fetch_results l d =
     (if l \<noteq> All then
        (case int_of_limit l of
           Inl e \<Rightarrow> Inl e
         | Inr n \<Rightarrow>
             if sqlite_int n then Inr (sql_limit n (select_catalog d)) else Inl OverflowError)
      else Inr (select_catalog d))"

text \<open>
  The list comprehension building \<open>table_data\<close>: rows are rendered in order, and the
  first \<open>create_media\<close> that raises ends it.
\<close>

fun table_data :: "(int \<times> string \<times> string \<times> sqlval) list \<Rightarrow> event list \<times> (error + table_row list)" where
  "table_data [] = ([], Inr [])"
| "table_data ((row0, row1, row2, row3) # results) =
     (case create_media row1 row2 of
        (logged, Inl e) \<Rightarrow> (logged, Inl e)
      | (logged, Inr m) \<Rightarrow>
          (case table_data results of
             (logged', Inl e) \<Rightarrow> (logged @ logged', Inl e)
           | (logged', Inr rest) \<Rightarrow> (logged @ logged', Inr ((row0, get_details m, row3) # rest))))"

definition headers :: "string list" where
  "headers = [''ID'', ''Media Details'', ''Avg Rating'']"

definition emit_all :: "event list \<Rightarrow> world \<Rightarrow> world" where
  "emit_all es w = w\<lparr>trace := trace w @ es\<rparr>"

text \<open>\<open>list_media\<close> from \<open>print("Fetching from database...")\<close> on.\<close>

definition list_from_store :: "limit \<Rightarrow> world \<Rightarrow> world \<times> (error + unit)" where
  "list_from_store l w =
     (let w1 = emit Connect (emit (Print (Str ''Fetching from database...'')) w)
      in case fetch_results l (store w1) of
           Inl e \<Rightarrow> (w1, Inl e)
         | Inr results \<Rightarrow>
             if results = [] then
               (emit (Print (Str ''No media found. Please add media first!'')) w1, Inr ())
             else
               (case table_data results of
                  (logged, Inl e) \<Rightarrow> (emit_all logged w1, Inl e)
                | (logged, Inr rendered) \<Rightarrow>
                    let table_output = Tabulate rendered headers;
                        w2 = emit (Print table_output) (emit_all logged w1)
                    in cache_set ''media_list'' table_output 60 w2))"

definition list_media :: "limit \<Rightarrow> world \<Rightarrow> world \<times> (error + unit)" where
  "list_media l w =
     (case cache_get ''media_list'' w of
        (w1, Inl e) \<Rightarrow> (w1, Inl e)
      | (w1, Inr cached_media) \<Rightarrow>
          (case cached_media of
             Some hit \<Rightarrow>
               if truthy hit \<and> l = All then
                 (emit (Print hit) (emit (Print (Str ''Fetching from cache...'')) w1), Inr ())
               else list_from_store l w1
           | None \<Rightarrow> list_from_store l w1))"

section \<open>Review ingestion\<close>

text \<open>The loop of \<open>review_task\<close> over \<open>favorite_users\<close>, inserting the alerts.\<close>

primrec insert_alerts :: "int \<Rightarrow> string \<Rightarrow> int list \<Rightarrow> alert list \<Rightarrow> alert list" where
  "insert_alerts user_id alert_message [] rows = rows"
| "insert_alerts user_id alert_message (fav_user_id # favorite_users) rows =
     insert_alerts user_id alert_message favorite_users
       (if fav_user_id \<noteq> user_id
        then rows @ [\<lparr>a_user_id = fav_user_id, a_alert = alert_message\<rparr>]
        else rows)"

text \<open>
  \<open>review_task\<close>, the work of one thread: one connection and one transaction that inserts
  the review, reads the users who favorited the media and inserts their alerts. When an
  id or the rating does not fit SQLite's INTEGER, binding the INSERT raises
  \<open>OverflowError\<close>: nothing is written and the thread ends with that exception.
  SQLite answers \<open>SELECT user_id FROM favorites WHERE media_id = ?\<close> from the index of
  the UNIQUE constraint, so in \<open>user_id\<close> order.
\<close>

definition review_task :: "int \<Rightarrow> int \<times> int \<times> string \<Rightarrow> world \<Rightarrow> world" where
  "review_task user_id item w =
     (case item of (media_id, rating, comment) \<Rightarrow>
        let w1 = emit Connect w
        in if \<not> (sqlite_int user_id \<and> sqlite_int media_id \<and> sqlite_int rating) then
             emit (ThreadException OverflowError) w1
           else
             let d1 = (store w1)\<lparr>reviews := reviews (store w1) @
                        [\<lparr>r_user_id = user_id, r_media_id = media_id, r_rating = rating,
                          r_comment = comment\<rparr>]\<rparr>;
                 favorite_users =
                   sort (map f_user_id (filter (\<lambda>f. f_media_id f = media_id) (favorites d1)));
                 alert_message = ''User '' @ str_int user_id @ '' added a review for media ID '' @
                                 str_int media_id @ ''.'';
                 d2 = d1\<lparr>alerts := insert_alerts user_id alert_message favorite_users (alerts d1)\<rparr>
             in emit (Print (Str (''Review submitted for Media ID '' @ str_int media_id @ ''!'')))
                  (w1\<lparr>store := d2\<rparr>))"

text \<open>
  \<open>add_review\<close>. The threads write through connections of their own, and SQLite lets one
  write transaction run at a time, so the tasks take effect one after the other in an order
  the program does not choose: \<open>schedule\<close> lists the items in that order. In the trace
  the starts of the threads come first and the tasks follow in schedule order, one of the
  interleavings the threads allow. An acting user id that does not fit SQLite's INTEGER
  makes the SELECT of the user check raise \<open>OverflowError\<close>, which ends \<open>add_review\<close>.
\<close>

definition is_schedule :: "(int \<times> int \<times> string) list \<Rightarrow> (int \<times> int \<times> string) list \<Rightarrow> bool" where
  "is_schedule reviews_arg schedule = (mset schedule = mset reviews_arg)"

definition add_review ::
  "int \<Rightarrow> (int \<times> int \<times> string) list \<Rightarrow> (int \<times> int \<times> string) list \<Rightarrow> world \<Rightarrow>
   world \<times> (error + unit)" where
  "add_review user_id reviews_arg schedule w =
     (let w1 = emit Connect w
      in if \<not> sqlite_int user_id then (w1, Inl OverflowError)
         else if filter (\<lambda>u. u_id u = user_id) (users (store w1)) = [] then
           (emit (Print (Str ''Invalid user ID. Review submission failed.'')) w1, Inr ())
         else
           (fold (review_task user_id) schedule
              (fold (\<lambda>item. emit (ThreadStart item)) reviews_arg w1), Inr ()))"

section \<open>Removing a user\<close>

text \<open>
  \<open>remove_user\<close>: \<open>DELETE FROM users WHERE id = ?\<close> on a connection that does not
  enforce foreign keys, so the statement touches the \<open>users\<close> table only. An id that
  does not fit SQLite's INTEGER raises \<open>OverflowError\<close>, which is no \<open>sqlite3.Error\<close>
  and leaves the function.
\<close>

definition remove_user :: "int \<Rightarrow> world \<Rightarrow> world \<times> (error + unit)" where
  "remove_user user_id w =
     (let w1 = emit Connect w
      in if \<not> sqlite_int user_id then (w1, Inl OverflowError)
         else
           let rowcount = length (filter (\<lambda>u. u_id u = user_id) (users (store w1)));
               w2 = w1\<lparr>store := (store w1)\<lparr>users :=
                          filter (\<lambda>u. u_id u \<noteq> user_id) (users (store w1))\<rparr>\<rparr>
           in if rowcount = 0 then
                (emit (Print (Str (''No user found with ID '' @ str_int user_id @ ''.''))) w2, Inr ())
              else
                (emit (Print (Str (''User with ID '' @ str_int user_id @
                                   '' removed successfully.''))) w2, Inr ()))"

text \<open>
  Whether \<open>list_media\<close> answers from the cache: the condition
  \<open>cached_media and limit == "all"\<close>, read on the world before the call.
\<close>

definition cache_hit :: "limit \<Rightarrow> world \<Rightarrow> bool" where
  "cache_hit l w =
     (l = All \<and> (case entries (cache w) ''media_list'' of
                   Some (cached_media, ttl) \<Rightarrow> truthy cached_media
                 | None \<Rightarrow> False))"

section \<open>Example states\<close>

definition example_store :: db where
  "example_store =
     \<lparr>users = [\<lparr>u_id = 1, u_username = ''ann'', u_password = ''pw1''\<rparr>,
               \<lparr>u_id = 2, u_username = ''bob'', u_password = ''pw2''\<rparr>],
      media = [\<lparr>m_id = 1, m_title = ''Heat'', m_type = ''Movie''\<rparr>,
               \<lparr>m_id = 2, m_title = ''Hello'', m_type = ''Song''\<rparr>],
      reviews = [\<lparr>r_user_id = 1, r_media_id = 1, r_rating = 4, r_comment = ''good''\<rparr>],
      favorites = [\<lparr>f_user_id = 1, f_media_id = 2\<rparr>, \<lparr>f_user_id = 2, f_media_id = 1\<rparr>],
      alerts = [\<lparr>a_user_id = 1, a_alert = ''User 2 added a review for media ID 2.''\<rparr>]\<rparr>"

definition empty_store :: db where
  "empty_store = \<lparr>users = [], media = [], reviews = [], favorites = [], alerts = []\<rparr>"

text \<open>A world with the example store, an empty cache and the given fate of the round trips.\<close>

definition example_world :: "bool list \<Rightarrow> world" where
  "example_world fs =
     \<lparr>store = example_store, cache = \<lparr>entries = Map.empty, faults = fs\<rparr>, trace = []\<rparr>"

text \<open>A world with no media, whose cache holds a listing with five seconds left to live.\<close>

definition empty_world :: world where
  "empty_world =
     \<lparr>store = empty_store,
      cache = \<lparr>entries = [''media_list'' \<mapsto> (Tabulate [(9, ''Song: Gone'', SqlReal 3)] headers, 5)],
               faults = []\<rparr>,
      trace = []\<rparr>"

section \<open>Effects of the basic operations\<close>

lemma emit_simps [simp]:
  "store (emit e w) = store w" "cache (emit e w) = cache w" "trace (emit e w) = trace w @ [e]"
  by (simp_all add: emit_def)

lemma emit_all_simps [simp]:
  "store (emit_all es w) = store w" "cache (emit_all es w) = cache w"
  "trace (emit_all es w) = trace w @ es"
  by (simp_all add: emit_all_def)

lemma round_trip_simps [simp]:
  "store (snd (round_trip w)) = store w"
  "entries (cache (snd (round_trip w))) = entries (cache w)"
  "trace (snd (round_trip w)) = trace w"
  by (simp_all add: round_trip_def split: list.splits)

lemma cache_get_world [simp]:
  "store (fst (cache_get key w)) = store w"
  "entries (cache (fst (cache_get key w))) = entries (cache w)"
  "trace (fst (cache_get key w)) = trace w @ [CacheGet key]"
  by (simp_all add: cache_get_def round_trip_def emit_def split: list.splits bool.splits)

lemma cache_get_result:
  "snd (cache_get key w) = Inl ConnectionError \<or>
   snd (cache_get key w) = Inr (map_option fst (entries (cache w) key))"
  by (simp add: cache_get_def round_trip_def emit_def split: list.splits bool.splits)

section \<open>Media taxonomy: what \<open>create_media\<close> returns\<close>

lemma create_media_result:
  "create_media title media_type = (logged, Inr m) \<Longrightarrow> logged = []"
  by (auto simp: create_media_def Media_def split: option.splits)

lemma create_media_warnings:
  "create_media title media_type = (logged, r) \<Longrightarrow> \<forall>ev\<in>set logged. \<exists>s. ev = Warning s"
  by (auto simp: create_media_def split: option.splits)

lemma table_data_logged:
  "table_data results = (logged, Inr rendered) \<Longrightarrow> logged = []"
proof (induction results arbitrary: logged rendered)
  case Nil
  then show ?case by simp
next
  case (Cons row results)
  obtain row0 row1 row2 row3 where row: "row = (row0, row1, row2, row3)"
    by (cases row) auto
  from Cons.prems show ?case
    by (auto simp: row split: prod.splits sum.splits dest: create_media_result Cons.IH)
qed

lemma table_data_warnings:
  "table_data results = (logged, r) \<Longrightarrow> \<forall>ev\<in>set logged. \<exists>s. ev = Warning s"
proof (induction results arbitrary: logged r)
  case Nil
  then show ?case by simp
next
  case (Cons row results)
  obtain row0 row1 row2 row3 where row: "row = (row0, row1, row2, row3)"
    by (cases row) auto
  obtain l1 r1 where first: "create_media row1 row2 = (l1, r1)"
    by (cases "create_media row1 row2") auto
  obtain l2 r2 where rest: "table_data results = (l2, r2)"
    by (cases "table_data results") auto
  have "\<forall>ev\<in>set l1. \<exists>s. ev = Warning s"
    using first by (rule create_media_warnings)
  moreover have "\<forall>ev\<in>set l2. \<exists>s. ev = Warning s"
    using rest by (rule Cons.IH)
  ultimately show ?case
    using Cons.prems by (auto simp: row first rest split: sum.splits)
qed

lemma table_data_rows:
  "table_data results = (logged, Inr rendered) \<Longrightarrow> (i, details, avg) \<in> set rendered \<Longrightarrow>
   \<exists>title type. (i, title, type, avg) \<in> set results"
proof (induction results arbitrary: logged rendered)
  case Nil
  then show ?case by simp
next
  case (Cons row results)
  obtain row0 row1 row2 row3 where row: "row = (row0, row1, row2, row3)"
    by (cases row) auto
  from Cons.prems show ?case
    by (fastforce simp: row split: prod.splits sum.splits dest: Cons.IH)
qed

text \<open>
  Claim C1 says that \<open>create_media\<close> returns an object for every title and kind,
  rendering \<open>"{k}: {t}"\<close> for Movie, WebShow, Cartoon and Song and a generic object for
  any other kind. The code does so for Movie, WebShow and Song only: \<open>media_classes\<close> has
  no entry for Cartoon, and the fallback \<open>Media(title, media_type)\<close> instantiates an
  abstract class. At the title "Tom and Jerry" of kind "Cartoon", and at an unrecognised
  kind, the call logs its warning and raises \<open>TypeError\<close>.
\<close>

theorem create_media_raises:
  "create_media ''Tom and Jerry'' ''Cartoon'' =
     ([Warning (unknown_type_warning ''Tom and Jerry'' ''Cartoon'')], Inl TypeError) \<and>
   create_media ''Serial'' ''Podcast'' =
     ([Warning (unknown_type_warning ''Serial'' ''Podcast'')], Inl TypeError)"
  by (simp add: create_media_def media_classes_def Media_def)

section \<open>Review ingestion: the acting user and the ratings\<close>

text \<open>
  Claim C6: when the acting user is not in \<open>users\<close>, \<open>add_review\<close> writes nothing
  and starts no thread: the store and the cache are what they were, and the effects are
  the connection of the user check and at most one printed line, whatever the batch and
  its schedule. When the id is one SQLite can hold, the call prints
  "Invalid user ID. Review submission failed." and returns; an id beyond 64 bits ends the
  call with \<open>OverflowError\<close> at the user check instead.
\<close>

theorem add_review_invalid_user:
  assumes "user_id \<notin> u_id ` set (users (store w))"
  shows "(sqlite_int user_id \<longrightarrow>
            add_review user_id reviews_arg schedule w =
              (w\<lparr>trace := trace w @
                   [Connect, Print (Str ''Invalid user ID. Review submission failed.'')]\<rparr>, Inr ())) \<and>
         (\<not> sqlite_int user_id \<longrightarrow>
            add_review user_id reviews_arg schedule w =
              (w\<lparr>trace := trace w @ [Connect]\<rparr>, Inl OverflowError)) \<and>
         store (fst (add_review user_id reviews_arg schedule w)) = store w \<and>
         cache (fst (add_review user_id reviews_arg schedule w)) = cache w"
proof -
  have "filter (\<lambda>u. u_id u = user_id) (users (store w)) = []"
    using assms by (auto simp: filter_empty_conv)
  then show ?thesis
    by (simp add: add_review_def Let_def emit_def)
qed

theorem add_review_invalid_user_witness:
  "(3::int) \<notin> u_id ` set (users (store (example_world []))) \<and> sqlite_int 3 \<and>
   add_review 3 [(1, 5, ''ok''), (2, 1, ''bad'')] [(2, 1, ''bad''), (1, 5, ''ok'')] (example_world []) =
     ((example_world [])\<lparr>trace := [Connect, Print (Str ''Invalid user ID. Review submission failed.'')]\<rparr>,
      Inr ()) \<and>
   \<not> sqlite_int (2 ^ 63) \<and>
   add_review (2 ^ 63) [(1, 5, ''ok'')] [(1, 5, ''ok'')] (example_world []) =
     ((example_world [])\<lparr>trace := [Connect]\<rparr>, Inl OverflowError)"
  using add_review_invalid_user [of 3 "example_world []" "[(1, 5, ''ok''), (2, 1, ''bad'')]"
      "[(2, 1, ''bad''), (1, 5, ''ok'')]"]
    add_review_invalid_user [of "2 ^ 63" "example_world []" "[(1, 5, ''ok'')]" "[(1, 5, ''ok'')]"]
  by (simp add: example_world_def example_store_def sqlite_int_def)

text \<open>
  Claim C2 says that a batch item whose rating is outside 1..5 is rejected before any
  write. \<open>add_review\<close> never looks at the rating, and the \<open>reviews\<close> table of
  \<open>media_review.py\<close> has no CHECK on it (the one \<open>init.py\<close> declares has): for the
  existing user 1, the batch with the ratings 7 and 0 leaves both rows in the table, here
  with the second item committed first.
\<close>

theorem add_review_inserts_any_rating:
  "is_schedule [(2, 7, ''x''), (1, 0, ''y'')] [(1, 0, ''y''), (2, 7, ''x'')] \<and>
   snd (add_review 1 [(2, 7, ''x''), (1, 0, ''y'')] [(1, 0, ''y''), (2, 7, ''x'')]
          (example_world [])) = Inr () \<and>
   reviews (store (fst (add_review 1 [(2, 7, ''x''), (1, 0, ''y'')] [(1, 0, ''y''), (2, 7, ''x'')]
                          (example_world [])))) =
     [\<lparr>r_user_id = 1, r_media_id = 1, r_rating = 4, r_comment = ''good''\<rparr>,
      \<lparr>r_user_id = 1, r_media_id = 1, r_rating = 0, r_comment = ''y''\<rparr>,
      \<lparr>r_user_id = 1, r_media_id = 2, r_rating = 7, r_comment = ''x''\<rparr>]"
  by (simp add: is_schedule_def add_review_def review_task_def emit_def Let_def
      example_world_def example_store_def sqlite_int_def)

section \<open>Review ingestion: alerts\<close>

lemma insert_alerts_append:
  "insert_alerts A msg favs rows =
   rows @ map (\<lambda>u. \<lparr>a_user_id = u, a_alert = msg\<rparr>) (filter (\<lambda>u. u \<noteq> A) favs)"
  by (induction favs arbitrary: rows) simp_all

lemma review_task_favorites [simp]:
  "favorites (store (review_task A item w)) = favorites (store w)"
  by (cases item) (simp add: review_task_def Let_def)

lemma review_task_alerts:
  "alerts (store (review_task A (M, rating, comment) w)) =
   alerts (store w) @
   (if sqlite_int A \<and> sqlite_int M \<and> sqlite_int rating then
      map (\<lambda>u. \<lparr>a_user_id = u,
                 a_alert = ''User '' @ str_int A @ '' added a review for media ID '' @
                           str_int M @ ''.''\<rparr>)
        (filter (\<lambda>u. u \<noteq> A)
           (sort (map f_user_id (filter (\<lambda>f. f_media_id f = M) (favorites (store w))))))
    else [])"
  by (simp add: review_task_def Let_def insert_alerts_append)

lemma fold_review_task_alerts:
  "alerts (store (fold (review_task A) schedule w)) =
   alerts (store w) @
   concat (map (\<lambda>(M, rating, comment).
       if sqlite_int A \<and> sqlite_int M \<and> sqlite_int rating then
         map (\<lambda>u. \<lparr>a_user_id = u,
                    a_alert = ''User '' @ str_int A @ '' added a review for media ID '' @
                              str_int M @ ''.''\<rparr>)
           (filter (\<lambda>u. u \<noteq> A)
              (sort (map f_user_id (filter (\<lambda>f. f_media_id f = M) (favorites (store w))))))
       else []) schedule)"
proof (induction schedule arbitrary: w)
  case Nil
  show ?case by simp
next
  case (Cons item schedule)
  obtain M rating comment where item: "item = (M, rating, comment)"
    by (cases item) auto
  show ?case
    by (simp add: Cons.IH [of "review_task A item w"] cong: if_cong)
      (simp add: item review_task_alerts)
qed

lemma fold_thread_start [simp]:
  "store (fold (\<lambda>item. emit (ThreadStart item)) items w) = store w"
  by (induction items arbitrary: w) simp_all

lemma favorite_fields_eq:
  "(f_user_id f = B \<and> f_media_id f = M) = (f = \<lparr>f_user_id = B, f_media_id = M\<rparr>)"
  by (cases f) auto

lemma count_favorite_distinct:
  assumes "distinct favs"
  shows "length (filter (\<lambda>f. f_user_id f = B \<and> f_media_id f = M) favs) =
         (if \<lparr>f_user_id = B, f_media_id = M\<rparr> \<in> set favs then 1 else 0)"
proof -
  have "{f. f_user_id f = B \<and> f_media_id f = M} \<inter> set favs =
        (if \<lparr>f_user_id = B, f_media_id = M\<rparr> \<in> set favs then {\<lparr>f_user_id = B, f_media_id = M\<rparr>}
         else {})"
    by (auto simp: favorite_fields_eq)
  then show ?thesis
    using assms by (simp add: distinct_length_filter)
qed

lemma length_filter_sort:
  "length (filter P (sort xs)) = length (filter P (xs :: int list))"
  by (metis mset_filter mset_sort size_mset)

lemma count_task_alerts:
  assumes "distinct favs" and "B \<noteq> A"
  shows "length (filter (\<lambda>a. a_user_id a = B)
           (map (\<lambda>u. \<lparr>a_user_id = u, a_alert = msg\<rparr>)
              (filter (\<lambda>u. u \<noteq> A) (sort (map f_user_id (filter (\<lambda>f. f_media_id f = M) favs)))))) =
         (if \<lparr>f_user_id = B, f_media_id = M\<rparr> \<in> set favs then 1 else 0)"
proof -
  let ?us = "map f_user_id (filter (\<lambda>f. f_media_id f = M) favs)"
  have "length (filter (\<lambda>a. a_user_id a = B)
           (map (\<lambda>u. \<lparr>a_user_id = u, a_alert = msg\<rparr>) (filter (\<lambda>u. u \<noteq> A) (sort ?us)))) =
        length (filter (\<lambda>u. u \<noteq> A \<and> u = B) (sort ?us))"
    by (simp add: filter_map comp_def)
  also have "\<dots> = length (filter (\<lambda>u. u \<noteq> A \<and> u = B) ?us)"
    by (rule length_filter_sort)
  also have "\<dots> = length (filter (\<lambda>f. f_user_id f = B \<and> f_media_id f = M) favs)"
    using assms(2) by (induction favs) auto
  finally show ?thesis
    using assms(1) by (simp add: count_favorite_distinct)
qed

lemma count_batch_alerts:
  assumes "distinct favs" and "B \<noteq> A" and "sqlite_int A"
  shows "length (filter (\<lambda>a. a_user_id a = B)
           (concat (map (\<lambda>(M, rating, comment).
              if sqlite_int A \<and> sqlite_int M \<and> sqlite_int rating then
                map (\<lambda>u. \<lparr>a_user_id = u,
                           a_alert = ''User '' @ str_int A @ '' added a review for media ID '' @
                                     str_int M @ ''.''\<rparr>)
                  (filter (\<lambda>u. u \<noteq> A) (sort (map f_user_id (filter (\<lambda>f. f_media_id f = M) favs))))
              else []) schedule))) =
         length (filter (\<lambda>(M, rating, comment). sqlite_int M \<and> sqlite_int rating \<and>
                           \<lparr>f_user_id = B, f_media_id = M\<rparr> \<in> set favs) schedule)"
proof (induction schedule)
  case Nil
  show ?case by simp
next
  case (Cons item schedule)
  obtain M rating comment where item: "item = (M, rating, comment)"
    by (cases item) auto
  show ?case
  proof (cases "sqlite_int M \<and> sqlite_int rating")
    case True
    then show ?thesis
      using Cons.IH assms(3) count_task_alerts [OF assms(1,2), of _ M]
      by (simp add: item)
  next
    case False
    then show ?thesis
      using Cons.IH by (auto simp: item)
  qed
qed

lemma batch_alerts_shape:
  assumes "a \<in> set (concat (map (\<lambda>(M, rating, comment).
              if sqlite_int A \<and> sqlite_int M \<and> sqlite_int rating then
                map (\<lambda>u. \<lparr>a_user_id = u,
                           a_alert = ''User '' @ str_int A @ '' added a review for media ID '' @
                                     str_int M @ ''.''\<rparr>)
                  (filter (\<lambda>u. u \<noteq> A) (sort (map f_user_id (filter (\<lambda>f. f_media_id f = M) favs))))
              else []) schedule))"
  shows "a_user_id a \<noteq> A \<and>
         (\<exists>(M, rating, comment)\<in>set schedule.
            \<lparr>f_user_id = a_user_id a, f_media_id = M\<rparr> \<in> set favs \<and>
            a_alert a = ''User '' @ str_int A @ '' added a review for media ID '' @ str_int M @ ''.'')"
proof -
  from assms obtain M rating comment u where
    item: "(M, rating, comment) \<in> set schedule" and
    u: "u \<in> set (map f_user_id (filter (\<lambda>f. f_media_id f = M) favs))" "u \<noteq> A" and
    a: "a = \<lparr>a_user_id = u,
             a_alert = ''User '' @ str_int A @ '' added a review for media ID '' @ str_int M @ ''.''\<rparr>"
    by (auto split: if_splits)
  from u(1) obtain f where f: "f \<in> set favs" "f_media_id f = M" "f_user_id f = u"
    by auto
  then have "f = \<lparr>f_user_id = u, f_media_id = M\<rparr>"
    using favorite_fields_eq [of f u M] by blast
  with f(1) have "\<lparr>f_user_id = u, f_media_id = M\<rparr> \<in> set favs"
    by simp
  then show ?thesis
    using item u(2) a by auto
qed

lemma length_filter_schedule:
  "mset schedule = mset items \<Longrightarrow> length (filter P schedule) = length (filter P items)"
  by (metis mset_filter size_mset)

lemma mset_concat_map:
  "mset (concat (map f xs)) = sum_mset (image_mset (\<lambda>x. mset (f x)) (mset xs))"
  by (induction xs) simp_all

lemma task_alerts_mset:
  "mset (map (\<lambda>u. \<lparr>a_user_id = u, a_alert = msg\<rparr>)
           (filter (\<lambda>u. u \<noteq> A) (sort (map f_user_id (filter (\<lambda>f. f_media_id f = M) favs))))) =
   mset (map (\<lambda>f. \<lparr>a_user_id = f_user_id f, a_alert = msg\<rparr>)
           (filter (\<lambda>f. f_media_id f = M \<and> f_user_id f \<noteq> A) favs))"
proof -
  have "map (\<lambda>u. \<lparr>a_user_id = u, a_alert = msg\<rparr>)
          (filter (\<lambda>u. u \<noteq> A) (map f_user_id (filter (\<lambda>f. f_media_id f = M) favs))) =
        map (\<lambda>f. \<lparr>a_user_id = f_user_id f, a_alert = msg\<rparr>)
          (filter (\<lambda>f. f_media_id f = M \<and> f_user_id f \<noteq> A) favs)"
    by (induction favs) auto
  then have "mset (map (\<lambda>u. \<lparr>a_user_id = u, a_alert = msg\<rparr>)
          (filter (\<lambda>u. u \<noteq> A) (map f_user_id (filter (\<lambda>f. f_media_id f = M) favs)))) =
        mset (map (\<lambda>f. \<lparr>a_user_id = f_user_id f, a_alert = msg\<rparr>)
          (filter (\<lambda>f. f_media_id f = M \<and> f_user_id f \<noteq> A) favs))"
    by simp
  then show ?thesis
    by simp
qed

lemma batch_alerts_mset:
  assumes "sqlite_int A" and "mset schedule = mset items"
  shows "mset (concat (map (\<lambda>(M, rating, comment).
              if sqlite_int A \<and> sqlite_int M \<and> sqlite_int rating then
                map (\<lambda>u. \<lparr>a_user_id = u,
                           a_alert = ''User '' @ str_int A @ '' added a review for media ID '' @
                                     str_int M @ ''.''\<rparr>)
                  (filter (\<lambda>u. u \<noteq> A) (sort (map f_user_id (filter (\<lambda>f. f_media_id f = M) favs))))
              else []) schedule)) =
         mset (concat (map (\<lambda>(M, rating, comment).
              if sqlite_int M \<and> sqlite_int rating then
                map (\<lambda>f. \<lparr>a_user_id = f_user_id f,
                           a_alert = ''User '' @ str_int A @ '' added a review for media ID '' @
                                     str_int M @ ''.''\<rparr>)
                  (filter (\<lambda>f. f_media_id f = M \<and> f_user_id f \<noteq> A) favs)
              else []) items))"
proof -
  have pointwise: "mset (case item of (M, rating, comment) \<Rightarrow>
              if sqlite_int A \<and> sqlite_int M \<and> sqlite_int rating then
                map (\<lambda>u. \<lparr>a_user_id = u,
                           a_alert = ''User '' @ str_int A @ '' added a review for media ID '' @
                                     str_int M @ ''.''\<rparr>)
                  (filter (\<lambda>u. u \<noteq> A) (sort (map f_user_id (filter (\<lambda>f. f_media_id f = M) favs))))
              else []) =
        mset (case item of (M, rating, comment) \<Rightarrow>
              if sqlite_int M \<and> sqlite_int rating then
                map (\<lambda>f. \<lparr>a_user_id = f_user_id f,
                           a_alert = ''User '' @ str_int A @ '' added a review for media ID '' @
                                     str_int M @ ''.''\<rparr>)
                  (filter (\<lambda>f. f_media_id f = M \<and> f_user_id f \<noteq> A) favs)
              else [])" for item
  proof -
    obtain M rating comment where item: "item = (M, rating, comment)"
      by (cases item) auto
    show ?thesis
    proof (cases "sqlite_int M \<and> sqlite_int rating")
      case True
      then show ?thesis
        using assms(1) by (simp only: item case_prod_conv simp_thms if_True task_alerts_mset)
    next
      case False
      then show ?thesis
        by (simp only: item case_prod_conv simp_thms if_False)
    qed
  qed
  show ?thesis
    by (simp only: mset_concat_map assms(2) pointwise)
qed

lemma add_review_valid:
  assumes "A \<in> u_id ` set (users (store w))" and "sqlite_int A"
  shows "add_review A items schedule w =
         (fold (review_task A) schedule
            (fold (\<lambda>item. emit (ThreadStart item)) items (emit Connect w)), Inr ())"
proof -
  have "filter (\<lambda>u. u_id u = A) (users (store w)) \<noteq> []"
    using assms(1) by (auto simp: filter_empty_conv)
  then show ?thesis
    using assms(2) by (simp add: add_review_def Let_def)
qed

text \<open>
  Claim C7: the alerts \<open>add_review\<close> creates are appended to the table. Each has a
  recipient other than the acting user \<open>A\<close>, who favorited the media \<open>M\<close> of an item of
  the batch, and the text "User A added a review for media ID M."; none is addressed to
  \<open>A\<close>. Up to their order, the created alerts are one row for each review of the
  batch and each favorite of its media by another user. Every other user \<open>B\<close> gets exactly one alert for each review of the batch whose
  media \<open>B\<close> favorited (the reviews that SQLite can store: media id and rating within 64
  bits). So a batch of one review of \<open>M\<close> gives exactly one alert to each \<open>B \<noteq> A\<close>
  who favorited \<open>M\<close>, and no alert at all when \<open>A\<close> alone favorited \<open>M\<close>. This holds
  for every order in which the worker transactions commit. The acting user exists and
  \<open>favorites\<close> holds no pair twice (its UNIQUE constraint).
\<close>

theorem add_review_alerts:
  assumes "A \<in> u_id ` set (users (store w))" and "sqlite_int A"
    and "distinct (favorites (store w))" and "is_schedule items schedule"
  shows "\<exists>created.
     alerts (store (fst (add_review A items schedule w))) = alerts (store w) @ created \<and>
     mset created =
       mset (concat (map (\<lambda>(M, rating, comment).
          if sqlite_int M \<and> sqlite_int rating then
            map (\<lambda>f. \<lparr>a_user_id = f_user_id f,
                       a_alert = ''User '' @ str_int A @ '' added a review for media ID '' @
                                 str_int M @ ''.''\<rparr>)
              (filter (\<lambda>f. f_media_id f = M \<and> f_user_id f \<noteq> A) (favorites (store w)))
          else []) items)) \<and>
     (\<forall>a\<in>set created. a_user_id a \<noteq> A \<and>
        (\<exists>(M, rating, comment)\<in>set items.
           \<lparr>f_user_id = a_user_id a, f_media_id = M\<rparr> \<in> set (favorites (store w)) \<and>
           a_alert a = ''User '' @ str_int A @ '' added a review for media ID '' @ str_int M @ ''.'')) \<and>
     filter (\<lambda>a. a_user_id a = A) created = [] \<and>
     (\<forall>B. B \<noteq> A \<longrightarrow>
        length (filter (\<lambda>a. a_user_id a = B) created) =
        length (filter (\<lambda>(M, rating, comment). sqlite_int M \<and> sqlite_int rating \<and>
                          \<lparr>f_user_id = B, f_media_id = M\<rparr> \<in> set (favorites (store w))) items)) \<and>
     (\<forall>M rating comment. items = [(M, rating, comment)] \<and> sqlite_int M \<and> sqlite_int rating \<longrightarrow>
        (\<forall>B. \<lparr>f_user_id = B, f_media_id = M\<rparr> \<in> set (favorites (store w)) \<and> B \<noteq> A \<longrightarrow>
           length (filter (\<lambda>a. a_user_id a = B) created) = 1) \<and>
        ((\<forall>f\<in>set (favorites (store w)). f_media_id f = M \<longrightarrow> f_user_id f = A) \<longrightarrow>
           created = []))"
proof -
  let ?favs = "favorites (store w)"
  define created where "created =
    concat (map (\<lambda>(M, rating, comment).
       if sqlite_int A \<and> sqlite_int M \<and> sqlite_int rating then
         map (\<lambda>u. \<lparr>a_user_id = u,
                    a_alert = ''User '' @ str_int A @ '' added a review for media ID '' @
                              str_int M @ ''.''\<rparr>)
           (filter (\<lambda>u. u \<noteq> A) (sort (map f_user_id (filter (\<lambda>f. f_media_id f = M) ?favs))))
       else []) schedule)"
  have sched: "mset schedule = mset items"
    using assms(4) by (simp add: is_schedule_def)
  then have same_set: "set schedule = set items"
    by (rule mset_eq_setD)
  have eq: "alerts (store (fst (add_review A items schedule w))) = alerts (store w) @ created"
    using fold_review_task_alerts [of A schedule
        "fold (\<lambda>item. emit (ThreadStart item)) items (emit Connect w)"]
    by (simp add: add_review_valid [OF assms(1,2)] created_def cong: if_cong)
  have content: "mset created =
       mset (concat (map (\<lambda>(M, rating, comment).
          if sqlite_int M \<and> sqlite_int rating then
            map (\<lambda>f. \<lparr>a_user_id = f_user_id f,
                       a_alert = ''User '' @ str_int A @ '' added a review for media ID '' @
                                 str_int M @ ''.''\<rparr>)
              (filter (\<lambda>f. f_media_id f = M \<and> f_user_id f \<noteq> A) ?favs)
          else []) items))"
    unfolding created_def by (rule batch_alerts_mset [OF assms(2) sched])
  have shape: "\<forall>a\<in>set created. a_user_id a \<noteq> A \<and>
        (\<exists>(M, rating, comment)\<in>set items.
           \<lparr>f_user_id = a_user_id a, f_media_id = M\<rparr> \<in> set ?favs \<and>
           a_alert a = ''User '' @ str_int A @ '' added a review for media ID '' @ str_int M @ ''.'')"
    using batch_alerts_shape [of _ A ?favs schedule] unfolding created_def same_set by blast
  have none: "filter (\<lambda>a. a_user_id a = A) created = []"
    using shape by (auto simp: filter_empty_conv)
  have count: "\<forall>B. B \<noteq> A \<longrightarrow>
        length (filter (\<lambda>a. a_user_id a = B) created) =
        length (filter (\<lambda>(M, rating, comment). sqlite_int M \<and> sqlite_int rating \<and>
                          \<lparr>f_user_id = B, f_media_id = M\<rparr> \<in> set ?favs) items)"
  proof (intro allI impI)
    fix B
    assume "B \<noteq> A"
    then have "length (filter (\<lambda>a. a_user_id a = B) created) =
        length (filter (\<lambda>(M, rating, comment). sqlite_int M \<and> sqlite_int rating \<and>
                          \<lparr>f_user_id = B, f_media_id = M\<rparr> \<in> set ?favs) schedule)"
      unfolding created_def by (rule count_batch_alerts [OF assms(3) _ assms(2)])
    then show "length (filter (\<lambda>a. a_user_id a = B) created) =
        length (filter (\<lambda>(M, rating, comment). sqlite_int M \<and> sqlite_int rating \<and>
                          \<lparr>f_user_id = B, f_media_id = M\<rparr> \<in> set ?favs) items)"
      by (simp add: length_filter_schedule [OF sched])
  qed
  have single: "\<forall>M rating comment.
        items = [(M, rating, comment)] \<and> sqlite_int M \<and> sqlite_int rating \<longrightarrow>
        (\<forall>B. \<lparr>f_user_id = B, f_media_id = M\<rparr> \<in> set ?favs \<and> B \<noteq> A \<longrightarrow>
           length (filter (\<lambda>a. a_user_id a = B) created) = 1) \<and>
        ((\<forall>f\<in>set ?favs. f_media_id f = M \<longrightarrow> f_user_id f = A) \<longrightarrow> created = [])"
  proof (intro allI impI)
    fix M rating comment
    assume one: "items = [(M, rating, comment)] \<and> sqlite_int M \<and> sqlite_int rating"
    have each: "\<forall>B. \<lparr>f_user_id = B, f_media_id = M\<rparr> \<in> set ?favs \<and> B \<noteq> A \<longrightarrow>
           length (filter (\<lambda>a. a_user_id a = B) created) = 1"
      using count one by simp
    have own: "(\<forall>f\<in>set ?favs. f_media_id f = M \<longrightarrow> f_user_id f = A) \<longrightarrow> created = []"
    proof
      assume only: "\<forall>f\<in>set ?favs. f_media_id f = M \<longrightarrow> f_user_id f = A"
      show "created = []"
      proof (rule ccontr)
        assume "created \<noteq> []"
        then obtain a where a: "a \<in> set created"
          by (cases created) auto
        with shape one have "a_user_id a \<noteq> A"
          and "\<lparr>f_user_id = a_user_id a, f_media_id = M\<rparr> \<in> set ?favs"
          by auto
        with only show False
          by force
      qed
    qed
    from each own show "(\<forall>B. \<lparr>f_user_id = B, f_media_id = M\<rparr> \<in> set ?favs \<and> B \<noteq> A \<longrightarrow>
           length (filter (\<lambda>a. a_user_id a = B) created) = 1) \<and>
        ((\<forall>f\<in>set ?favs. f_media_id f = M \<longrightarrow> f_user_id f = A) \<longrightarrow> created = [])"
      by (rule conjI)
  qed
  from eq content shape none count single show ?thesis
    by blast
qed

theorem add_review_alerts_witness:
  "(1::int) \<in> u_id ` set (users (store (example_world []))) \<and> sqlite_int 1 \<and>
   distinct (favorites (store (example_world []))) \<and>
   is_schedule [(1, 5, ''a''), (2, 3, ''b''), (1, 2 ^ 63, ''c''), (1, 1, ''d'')]
               [(1, 1, ''d''), (1, 2 ^ 63, ''c''), (1, 5, ''a''), (2, 3, ''b'')] \<and>
   alerts (store (fst (add_review 1
       [(1, 5, ''a''), (2, 3, ''b''), (1, 2 ^ 63, ''c''), (1, 1, ''d'')]
       [(1, 1, ''d''), (1, 2 ^ 63, ''c''), (1, 5, ''a''), (2, 3, ''b'')] (example_world [])))) =
     alerts (store (example_world [])) @
     [\<lparr>a_user_id = 2, a_alert = ''User 1 added a review for media ID 1.''\<rparr>,
      \<lparr>a_user_id = 2, a_alert = ''User 1 added a review for media ID 1.''\<rparr>]"
  using add_review_alerts [of 1 "example_world []"
      "[(1, 5, ''a''), (2, 3, ''b''), (1, 2 ^ 63, ''c''), (1, 1, ''d'')]"
      "[(1, 1, ''d''), (1, 2 ^ 63, ''c''), (1, 5, ''a''), (2, 3, ''b'')]"]
  by (simp add: is_schedule_def add_review_def review_task_def Let_def emit_def example_world_def
      example_store_def str_int_def digits.simps sqlite_int_def)

section \<open>Favorites are kept once\<close>

lemma insert_favorite_twice:
  "insert_favorite u m (insert_favorite u m d) = insert_favorite u m d"
  by (simp add: insert_favorite_def)

lemma insert_favorite_distinct:
  "distinct (favorites d) \<Longrightarrow> distinct (favorites (insert_favorite u m d))"
  by (simp add: insert_favorite_def)

lemma insert_favorite_member:
  "\<lparr>f_user_id = u, f_media_id = m\<rparr> \<in> set (favorites (insert_favorite u m d))"
  by (simp add: insert_favorite_def)

lemma add_favorite_ok:
  assumes "sqlite_int u" and "sqlite_int m"
  shows "add_favorite u m w =
         (w\<lparr>store := insert_favorite u m (store w),
             trace := trace w @
               [Connect, Print (Str (''Media ID '' @ str_int m @ '' added to favorites for User ID '' @
                                     str_int u @ ''!''))]\<rparr>, Inr ())"
  using assms by (simp add: add_favorite_def Let_def emit_def)

text \<open>
  Claim C9: calling \<open>add_favorite\<close> twice with the same user and media leaves exactly
  one \<open>favorites\<close> row for the pair. Both calls return without an error and print their
  message; the second changes nothing in the store, and no pair is held twice
  afterwards. The ids are ones SQLite can hold (64-bit integers), and the table holds no
  pair twice before (its UNIQUE constraint).
\<close>

theorem add_favorite_idempotent:
  assumes "distinct (favorites (store w))" and "sqlite_int u" and "sqlite_int m"
  shows "snd (add_favorite u m w) = Inr () \<and>
         snd (add_favorite u m (fst (add_favorite u m w))) = Inr () \<and>
         length (filter (\<lambda>f. f_user_id f = u \<and> f_media_id f = m)
           (favorites (store (fst (add_favorite u m (fst (add_favorite u m w))))))) = 1 \<and>
         store (fst (add_favorite u m (fst (add_favorite u m w)))) =
           store (fst (add_favorite u m w)) \<and>
         distinct (favorites (store (fst (add_favorite u m (fst (add_favorite u m w)))))) \<and>
         trace (fst (add_favorite u m (fst (add_favorite u m w)))) =
           trace (fst (add_favorite u m w)) @
           [Connect, Print (Str (''Media ID '' @ str_int m @ '' added to favorites for User ID '' @
                                 str_int u @ ''!''))]"
proof -
  let ?d = "insert_favorite u m (store w)"
  have dist: "distinct (favorites ?d)"
    using assms(1) by (rule insert_favorite_distinct)
  have "length (filter (\<lambda>f. f_user_id f = u \<and> f_media_id f = m) (favorites ?d)) = 1"
    using dist by (simp add: count_favorite_distinct insert_favorite_member)
  then show ?thesis
    using dist by (simp add: add_favorite_ok [OF assms(2,3)] insert_favorite_twice)
qed

theorem add_favorite_idempotent_witness:
  "distinct (favorites (store (example_world []))) \<and> sqlite_int 2 \<and>
   snd (add_favorite 2 2 (fst (add_favorite 2 2 (example_world [])))) = Inr () \<and>
   favorites (store (fst (add_favorite 2 2 (fst (add_favorite 2 2 (example_world [])))))) =
     [\<lparr>f_user_id = 1, f_media_id = 2\<rparr>, \<lparr>f_user_id = 2, f_media_id = 1\<rparr>,
      \<lparr>f_user_id = 2, f_media_id = 2\<rparr>] \<and>
   favorites (store (fst (add_favorite 1 2 (fst (add_favorite 1 2 (example_world [])))))) =
     [\<lparr>f_user_id = 1, f_media_id = 2\<rparr>, \<lparr>f_user_id = 2, f_media_id = 1\<rparr>]"
  using add_favorite_idempotent [of "example_world []" 2 2]
  by (simp add: add_favorite_def insert_favorite_def Let_def emit_def example_world_def
      example_store_def sqlite_int_def)

section \<open>Removing a user: the rows that reference the user\<close>

text \<open>
  Claim C5 says that removing a user removes the reviews, alerts and favorites that
  reference the user. \<open>remove_user\<close> deletes from \<open>users\<close> on a connection that does
  not enforce foreign keys, and \<open>favorites\<close> declares no cascade: removing user 1 from
  the example store leaves the review, the favorite and the alert of user 1 in place.
\<close>

theorem remove_user_keeps_dependent_rows:
  "snd (remove_user 1 (example_world [])) = Inr () \<and>
   map u_id (users (store (fst (remove_user 1 (example_world []))))) = [2] \<and>
   reviews (store (fst (remove_user 1 (example_world [])))) =
     [\<lparr>r_user_id = 1, r_media_id = 1, r_rating = 4, r_comment = ''good''\<rparr>] \<and>
   favorites (store (fst (remove_user 1 (example_world [])))) =
     [\<lparr>f_user_id = 1, f_media_id = 2\<rparr>, \<lparr>f_user_id = 2, f_media_id = 1\<rparr>] \<and>
   alerts (store (fst (remove_user 1 (example_world [])))) =
     [\<lparr>a_user_id = 1, a_alert = ''User 2 added a review for media ID 2.''\<rparr>]"
  by (simp add: remove_user_def emit_def Let_def example_world_def example_store_def sqlite_int_def)


section \<open>The catalog listing and the cache\<close>

lemma double_of_rat_4 [simp]: "double_of_rat 4 = 4"
  by (simp add: double_of_rat_def binade.simps round_half_even_def)

lemma list_from_store_empty:
  "fetch_results l (store w) = Inr [] \<Longrightarrow>
   list_from_store l w =
     (w\<lparr>trace := trace w @ [Print (Str ''Fetching from database...''), Connect,
                              Print (Str ''No media found. Please add media first!'')]\<rparr>, Inr ())"
  by (simp add: list_from_store_def Let_def emit_def)

text \<open>
  Claim C10: when the catalog query returns no row, \<open>list_media\<close> leaves every cache
  entry, value and time to live, as it was, and none of its effects is a \<open>cache.set\<close>.
\<close>

theorem list_media_no_rows_keeps_cache:
  assumes "fetch_results l (store w) = Inr []"
  shows "entries (cache (fst (list_media l w))) = entries (cache w) \<and>
         (\<exists>new. trace (fst (list_media l w)) = trace w @ new \<and>
                (\<forall>key val ttl. CacheSet key val ttl \<notin> set new))"
proof -
  obtain w1 r where got: "cache_get ''media_list'' w = (w1, r)"
    by (cases "cache_get ''media_list'' w") auto
  have w1: "store w1 = store w" "entries (cache w1) = entries (cache w)"
    "trace w1 = trace w @ [CacheGet ''media_list'']"
    using cache_get_world [of "''media_list''" w] by (simp_all add: got)
  have from_store: "list_from_store l w1 =
     (w1\<lparr>trace := trace w1 @ [Print (Str ''Fetching from database...''), Connect,
                              Print (Str ''No media found. Please add media first!'')]\<rparr>, Inr ())"
    using assms by (intro list_from_store_empty) (simp add: w1)
  show ?thesis
  proof (cases r)
    case (Inl e)
    then show ?thesis
      by (simp add: list_media_def got w1)
  next
    case (Inr cached_media)
    show ?thesis
    proof (cases "\<exists>hit. cached_media = Some hit \<and> truthy hit \<and> l = All")
      case True
      then show ?thesis
        by (auto simp: list_media_def got Inr w1)
    next
      case False
      then have "list_media l w = list_from_store l w1"
        by (auto simp: list_media_def got Inr split: option.splits)
      then show ?thesis
        by (simp add: from_store w1)
    qed
  qed
qed

theorem list_media_no_rows_keeps_cache_witness:
  "fetch_results (Number 3) (store empty_world) = Inr [] \<and>
   entries (cache (fst (list_media (Number 3) empty_world))) ''media_list'' =
     Some (Tabulate [(9, ''Song: Gone'', SqlReal 3)] headers, 5) \<and>
   trace (fst (list_media (Number 3) empty_world)) =
     [CacheGet ''media_list'', Print (Str ''Fetching from database...''), Connect,
      Print (Str ''No media found. Please add media first!'')]"
  using list_media_no_rows_keeps_cache [of "Number 3" empty_world]
  by (simp add: list_media_def list_from_store_def cache_get_def round_trip_def emit_def Let_def
      fetch_results_def int_of_limit_def sql_limit_def select_catalog_def empty_world_def
      empty_store_def sqlite_int_def)

text \<open>
  Claim C3 says that \<open>list_media\<close> with a numeric limit neither reads nor writes the
  cache. The code calls \<open>cache.get("media_list")\<close> before it looks at the limit and
  \<open>cache.set("media_list", ...)\<close> after every listing with a row: \<open>list_media(1)\<close> on a
  catalog of two media reads the key, stores its one-row listing under it for 60 seconds,
  and the next \<open>list_media("all")\<close> prints that one-row listing from the cache.
\<close>

theorem list_media_bounded_uses_cache:
  "trace (fst (list_media (Number 1) (example_world []))) =
     [CacheGet ''media_list'', Print (Str ''Fetching from database...''), Connect,
      Print (Tabulate [(1, ''Movie: Heat'', SqlReal 4)] headers),
      CacheSet ''media_list'' (Tabulate [(1, ''Movie: Heat'', SqlReal 4)] headers) 60] \<and>
   entries (cache (fst (list_media (Number 1) (example_world [])))) ''media_list'' =
     Some (Tabulate [(1, ''Movie: Heat'', SqlReal 4)] headers, 60) \<and>
   trace (fst (list_media All ((fst (list_media (Number 1) (example_world [])))\<lparr>trace := []\<rparr>))) =
     [CacheGet ''media_list'', Print (Str ''Fetching from cache...''),
      Print (Tabulate [(1, ''Movie: Heat'', SqlReal 4)] headers)]"
  by (simp add: list_media_def list_from_store_def cache_get_def cache_set_def round_trip_def
      emit_def emit_all_def Let_def fetch_results_def int_of_limit_def sql_limit_def
      select_catalog_def avg_rating_def create_media_def media_classes_def example_world_def
      example_store_def sqlite_int_def)

lemma list_media_miss:
  assumes "\<not> cache_hit l w" and "cache_get ''media_list'' w = (w1, Inr cached_media)"
  shows "list_media l w = list_from_store l w1"
proof -
  have "cached_media = map_option fst (entries (cache w) ''media_list'')"
    using cache_get_result [of "''media_list''" w] assms(2) by simp
  then have "\<not> (\<exists>hit. cached_media = Some hit \<and> truthy hit \<and> l = All)"
    using assms(1) by (auto simp: cache_hit_def split: option.splits)
  then show ?thesis
    by (auto simp: list_media_def assms(2) split: option.splits)
qed

text \<open>
  Claim C4 says that a failing cache does not fail \<open>list_media\<close>, which falls back to
  the store. The code calls \<open>cache.get\<close> and \<open>cache.set\<close> unguarded: with Redis
  unreachable, \<open>list_media\<close> raises the \<open>ConnectionError\<close> of \<open>cache.get\<close>, having
  opened no database connection and printed nothing, for "all" and for a numeric limit
  alike. (The module itself catches this error at start-up and carries on.)
\<close>

theorem list_media_cache_down:
  "snd (list_media All (example_world [True])) = Inl ConnectionError \<and>
   trace (fst (list_media All (example_world [True]))) = [CacheGet ''media_list''] \<and>
   snd (list_media (Number 1) (example_world [True])) = Inl ConnectionError \<and>
   trace (fst (list_media (Number 1) (example_world [True]))) = [CacheGet ''media_list'']"
  by (simp add: list_media_def cache_get_def round_trip_def emit_def example_world_def)


section \<open>The catalog listing: average ratings\<close>

lemma fetch_results_avg:
  assumes "fetch_results l d = Inr results" and "(i, title, type, avg) \<in> set results"
  shows "avg = avg_rating (reviews d) i"
proof -
  have "set results \<subseteq> set (select_catalog d)"
    using assms(1)
    by (auto simp: fetch_results_def sql_limit_def split: if_splits sum.splits dest: in_set_takeD)
  then show ?thesis
    using assms(2) by (auto simp: select_catalog_def)
qed

lemma list_from_store_printed:
  assumes "Print (Tabulate rendered hs) \<in> set (trace (fst (list_from_store l w)))"
    and "Print (Tabulate rendered hs) \<notin> set (trace w)"
  shows "\<exists>results logged. fetch_results l (store w) = Inr results \<and>
           table_data results = (logged, Inr rendered)"
proof (cases "fetch_results l (store w)")
  case (Inl e)
  then show ?thesis
    using assms by (simp add: list_from_store_def Let_def)
next
  case (Inr results)
  show ?thesis
  proof (cases "results = []")
    case True
    then show ?thesis
      using assms Inr by (simp add: list_from_store_def Let_def)
  next
    case False
    obtain logged r where td: "table_data results = (logged, r)"
      by (cases "table_data results") auto
    show ?thesis
    proof (cases r)
      case (Inl e)
      have "\<forall>ev\<in>set logged. \<exists>s. ev = Warning s"
        using td by (rule table_data_warnings)
      then show ?thesis
        using assms Inr False td Inl by (auto simp: list_from_store_def Let_def)
    next
      case (Inr rows)
      have "logged = []"
        using td Inr by (auto dest: table_data_logged)
      then show ?thesis
        using assms \<open>fetch_results l (store w) = Inr results\<close> False td Inr
        by (auto simp: list_from_store_def Let_def cache_set_def round_trip_def emit_def
            split: list.splits bool.splits)
    qed
  qed
qed

lemma create_media_known:
  "type \<in> {''Movie'', ''WebShow'', ''Song''} \<Longrightarrow>
   \<exists>m. create_media title type = ([], Inr m) \<and> get_details m = type @ '': '' @ title"
  by (auto simp: create_media_def media_classes_def)

lemma table_data_known:
  "\<forall>(i, title, type, avg)\<in>set results. type \<in> {''Movie'', ''WebShow'', ''Song''} \<Longrightarrow>
   table_data results =
     ([], Inr (map (\<lambda>(i, title, type, avg). (i, type @ '': '' @ title, avg)) results))"
proof (induction results)
  case Nil
  show ?case by simp
next
  case (Cons row results)
  obtain i title type avg where row: "row = (i, title, type, avg)"
    by (cases row) auto
  from Cons.prems have "type \<in> {''Movie'', ''WebShow'', ''Song''}"
    by (simp add: row)
  then obtain m where m: "create_media title type = ([], Inr m)"
    "get_details m = type @ '': '' @ title"
    using create_media_known by blast
  from Cons.prems have "\<forall>(i, title, type, avg)\<in>set results. type \<in> {''Movie'', ''WebShow'', ''Song''}"
    by simp
  then show ?case
    by (simp add: row m Cons.IH)
qed

lemma cache_get_ok:
  "\<forall>rest. faults (cache w) \<noteq> True # rest \<Longrightarrow>
   snd (cache_get key w) = Inr (map_option fst (entries (cache w) key))"
  by (simp add: cache_get_def round_trip_def emit_def split: list.splits bool.splits)

lemma cache_set_trace [simp]:
  "trace (fst (cache_set key val ttl w)) = trace w @ [CacheSet key val ttl]"
  by (simp add: cache_set_def round_trip_def emit_def split: list.splits bool.splits)

lemma list_from_store_listing:
  assumes "fetch_results l (store w) = Inr results" and "results \<noteq> []"
    and "table_data results = ([], Inr rendered)"
  shows "trace (fst (list_from_store l w)) =
         trace w @ [Print (Str ''Fetching from database...''), Connect,
                    Print (Tabulate rendered headers),
                    CacheSet ''media_list'' (Tabulate rendered headers) 60]"
  using assms by (simp add: list_from_store_def Let_def)

lemma avg_rating_unrated:
  "filter (\<lambda>r. r_media_id r = i) rs = [] \<Longrightarrow> avg_rating rs i = SqlText ''No Ratings''"
  by (simp add: avg_rating_def)

lemma avg_rating_single_4:
  "map r_rating (filter (\<lambda>r. r_media_id r = i) rs) = [4] \<Longrightarrow> avg_rating rs i = SqlReal 4"
  by (simp add: avg_rating_def)

text \<open>
  Claim C8 says that the listing of \<open>list_media\<close> reports "No Ratings" for a media item
  without reviews and 4.0 for one with a single review of rating 4. As stated it is false
  when the listing is answered from the cache: \<open>list_media("all")\<close>, then a review of
  rating 4 for media 2 by user 1, then \<open>list_media("all")\<close> again prints the cached
  listing, in which media 2 still has "No Ratings".
\<close>

theorem list_media_serves_stale_rating:
  "snd (add_review 1 [(2, 4, ''nice'')] [(2, 4, ''nice'')]
          (fst (list_media All (example_world [])))) = Inr () \<and>
   map r_rating (filter (\<lambda>r. r_media_id r = 2)
     (reviews (store (fst (add_review 1 [(2, 4, ''nice'')] [(2, 4, ''nice'')]
                             (fst (list_media All (example_world [])))))))) = [4] \<and>
   trace (fst (list_media All
            ((fst (add_review 1 [(2, 4, ''nice'')] [(2, 4, ''nice'')]
                     (fst (list_media All (example_world [])))))\<lparr>trace := []\<rparr>))) =
     [CacheGet ''media_list'', Print (Str ''Fetching from cache...''),
      Print (Tabulate [(1, ''Movie: Heat'', SqlReal 4), (2, ''Song: Hello'', SqlText ''No Ratings'')]
               headers)]"
  by (simp add: list_media_def list_from_store_def cache_get_def cache_set_def round_trip_def
      emit_def emit_all_def Let_def fetch_results_def select_catalog_def avg_rating_def
      create_media_def media_classes_def add_review_def review_task_def example_world_def
      example_store_def sqlite_int_def)

text \<open>
  Claim C8 as amended: in a listing that \<open>list_media\<close> builds from the store (the call
  is not answered from the cache) and prints, the row of media \<open>i\<close> reports the text
  "No Ratings" when no review references \<open>i\<close>, and the real 4.0 when the ratings of
  \<open>i\<close> are the single rating 4. And such a listing is printed, with one row for every
  media item of the store, each with that average: for \<open>list_media("all")\<close> when the
  cache answers the get, the catalog is not empty and every media type is one that
  \<open>create_media\<close> knows. The listing is a function of the store.
\<close>

theorem list_media_avg_rating:
  assumes "\<not> cache_hit l w"
  shows
    "(\<forall>rendered hs i details avg.
        Print (Tabulate rendered hs) \<in> set (trace (fst (list_media l w))) \<and>
        Print (Tabulate rendered hs) \<notin> set (trace w) \<and> (i, details, avg) \<in> set rendered \<longrightarrow>
        (filter (\<lambda>r. r_media_id r = i) (reviews (store w)) = [] \<longrightarrow> avg = SqlText ''No Ratings'') \<and>
        (map r_rating (filter (\<lambda>r. r_media_id r = i) (reviews (store w))) = [4] \<longrightarrow>
           avg = SqlReal 4)) \<and>
     (l = All \<and> (\<forall>rest. faults (cache w) \<noteq> True # rest) \<and> media (store w) \<noteq> [] \<and>
      (\<forall>m\<in>set (media (store w)). m_type m \<in> {''Movie'', ''WebShow'', ''Song''}) \<longrightarrow>
        (\<exists>rendered.
           trace (fst (list_media l w)) =
             trace w @ [CacheGet ''media_list'', Print (Str ''Fetching from database...''), Connect,
                        Print (Tabulate rendered headers),
                        CacheSet ''media_list'' (Tabulate rendered headers) 60] \<and>
           map fst rendered = map m_id (media (store w)) \<and>
           (\<forall>(i, details, avg)\<in>set rendered.
              (filter (\<lambda>r. r_media_id r = i) (reviews (store w)) = [] \<longrightarrow>
                 avg = SqlText ''No Ratings'') \<and>
              (map r_rating (filter (\<lambda>r. r_media_id r = i) (reviews (store w))) = [4] \<longrightarrow>
                 avg = SqlReal 4))))"
proof (intro conjI allI impI)
  fix rendered hs i details avg
  assume "Print (Tabulate rendered hs) \<in> set (trace (fst (list_media l w))) \<and>
        Print (Tabulate rendered hs) \<notin> set (trace w) \<and> (i, details, avg) \<in> set rendered"
  then have printed: "Print (Tabulate rendered hs) \<in> set (trace (fst (list_media l w)))"
    "Print (Tabulate rendered hs) \<notin> set (trace w)" "(i, details, avg) \<in> set rendered"
    by blast+
  obtain w1 r where got: "cache_get ''media_list'' w = (w1, r)"
    by (cases "cache_get ''media_list'' w") auto
  have w1: "store w1 = store w" "trace w1 = trace w @ [CacheGet ''media_list'']"
    using cache_get_world [of "''media_list''" w] by (simp_all add: got)
  have "\<exists>results logged. fetch_results l (store w) = Inr results \<and>
          table_data results = (logged, Inr rendered)"
  proof (cases r)
    case (Inl e)
    then show ?thesis
      using printed(1,2) by (simp add: list_media_def got w1)
  next
    case (Inr cached_media)
    then have "list_media l w = list_from_store l w1"
      using assms got by (simp add: list_media_miss)
    then have "Print (Tabulate rendered hs) \<in> set (trace (fst (list_from_store l w1)))"
      using printed(1) by simp
    moreover have "Print (Tabulate rendered hs) \<notin> set (trace w1)"
      using printed(2) by (simp add: w1)
    ultimately show ?thesis
      using list_from_store_printed [of rendered hs l w1] by (simp add: w1)
  qed
  then obtain results logged where
    "fetch_results l (store w) = Inr results" "table_data results = (logged, Inr rendered)"
    by blast
  then have avg: "avg = avg_rating (reviews (store w)) i"
    using printed(3) table_data_rows fetch_results_avg by blast
  show "filter (\<lambda>r. r_media_id r = i) (reviews (store w)) = [] \<Longrightarrow> avg = SqlText ''No Ratings''"
    by (simp add: avg avg_rating_unrated)
  show "map r_rating (filter (\<lambda>r. r_media_id r = i) (reviews (store w))) = [4] \<Longrightarrow> avg = SqlReal 4"
    by (simp add: avg avg_rating_single_4)
next
  assume h: "l = All \<and> (\<forall>rest. faults (cache w) \<noteq> True # rest) \<and> media (store w) \<noteq> [] \<and>
      (\<forall>m\<in>set (media (store w)). m_type m \<in> {''Movie'', ''WebShow'', ''Song''})"
  let ?results = "select_catalog (store w)"
  let ?rendered = "map (\<lambda>(i, title, type, avg). (i, type @ '': '' @ title, avg)) ?results"
  obtain w1 r where got: "cache_get ''media_list'' w = (w1, r)"
    by (cases "cache_get ''media_list'' w") auto
  have w1: "store w1 = store w" "trace w1 = trace w @ [CacheGet ''media_list'']"
    using cache_get_world [of "''media_list''" w] by (simp_all add: got)
  have "r = Inr (map_option fst (entries (cache w) ''media_list''))"
    using h cache_get_ok [of w "''media_list''"] by (simp add: got)
  then have miss: "list_media l w = list_from_store l w1"
    using assms got by (simp add: list_media_miss)
  have fetched: "fetch_results l (store w1) = Inr ?results"
    using h by (simp add: fetch_results_def w1)
  have nonempty: "?results \<noteq> []"
    using h by (simp add: select_catalog_def)
  have "\<forall>(i, title, type, avg)\<in>set ?results. type \<in> {''Movie'', ''WebShow'', ''Song''}"
    using h by (auto simp: select_catalog_def)
  then have rows: "table_data ?results = ([], Inr ?rendered)"
    by (rule table_data_known)
  have trace: "trace (fst (list_media l w)) =
             trace w @ [CacheGet ''media_list'', Print (Str ''Fetching from database...''), Connect,
                        Print (Tabulate ?rendered headers),
                        CacheSet ''media_list'' (Tabulate ?rendered headers) 60]"
    using list_from_store_listing [OF fetched nonempty rows] by (simp add: miss w1)
  have ids: "map fst ?rendered = map m_id (media (store w))"
    by (simp add: select_catalog_def comp_def)
  have each: "\<forall>(i, details, avg)\<in>set ?rendered.
              (filter (\<lambda>r. r_media_id r = i) (reviews (store w)) = [] \<longrightarrow>
                 avg = SqlText ''No Ratings'') \<and>
              (map r_rating (filter (\<lambda>r. r_media_id r = i) (reviews (store w))) = [4] \<longrightarrow>
                 avg = SqlReal 4)"
    by (auto simp: select_catalog_def avg_rating_unrated avg_rating_single_4)
  from trace ids each show "\<exists>rendered.
           trace (fst (list_media l w)) =
             trace w @ [CacheGet ''media_list'', Print (Str ''Fetching from database...''), Connect,
                        Print (Tabulate rendered headers),
                        CacheSet ''media_list'' (Tabulate rendered headers) 60] \<and>
           map fst rendered = map m_id (media (store w)) \<and>
           (\<forall>(i, details, avg)\<in>set rendered.
              (filter (\<lambda>r. r_media_id r = i) (reviews (store w)) = [] \<longrightarrow>
                 avg = SqlText ''No Ratings'') \<and>
              (map r_rating (filter (\<lambda>r. r_media_id r = i) (reviews (store w))) = [4] \<longrightarrow>
                 avg = SqlReal 4))"
    by blast
qed

theorem list_media_avg_rating_witness:
  "\<not> cache_hit All (example_world []) \<and>
   faults (cache (example_world [])) = [] \<and>
   map m_type (media (store (example_world []))) = [''Movie'', ''Song''] \<and>
   map r_rating (filter (\<lambda>r. r_media_id r = 1) (reviews (store (example_world [])))) = [4] \<and>
   filter (\<lambda>r. r_media_id r = 2) (reviews (store (example_world []))) = [] \<and>
   trace (fst (list_media All (example_world []))) =
     [CacheGet ''media_list'', Print (Str ''Fetching from database...''), Connect,
      Print (Tabulate [(1, ''Movie: Heat'', SqlReal 4), (2, ''Song: Hello'', SqlText ''No Ratings'')]
               headers),
      CacheSet ''media_list''
        (Tabulate [(1, ''Movie: Heat'', SqlReal 4), (2, ''Song: Hello'', SqlText ''No Ratings'')]
           headers) 60]"
  using list_media_avg_rating [of All "example_world []"]
  by (simp add: cache_hit_def list_media_def list_from_store_def cache_get_def cache_set_def
      round_trip_def emit_def emit_all_def Let_def fetch_results_def select_catalog_def
      avg_rating_def create_media_def media_classes_def example_world_def example_store_def)

end
